theory Spec2Isabelle
  imports Complex_Main
begin

section \<open>The LLM gateway of \<^verbatim>\<open>src/llm/main.py\<close>\<close>

text \<open>
  The module serves one endpoint, \<^verbatim>\<open>generate\<close>, which walks the configured list
  \<^verbatim>\<open>MODEL_CANDIDATES\<close>, posts one chat-completion call per model and returns a
  dictionary: \<^verbatim>\<open>{"text", "model_used"}\<close> or \<^verbatim>\<open>{"error_type"}\<close>.

  Python values that cross the HTTP boundary are JSON values; exceptions are values of
  the type \<open>exn\<close>; the upstream service is a state-passing function, so that it may
  answer two equal calls differently.
\<close>

subsection \<open>JSON values and the Python operations used on them\<close>

text \<open>
  What \<^verbatim>\<open>response.json()\<close> can yield, and what the handler puts into its payload
  and its result. A dictionary is an association list read with \<open>map_of\<close>.
  A float is represented by the real number it denotes: only its test against zero
  is used.
\<close>

datatype json =
    JNull
  | JBool bool
  | JInt int
  | JFloat real
  | JStr string
  | JArr "json list"
  | JObj "(string \<times> json) list"

datatype exn =
    IndexError | KeyError | TypeError | AttributeError | JSONDecodeError | OtherError

text \<open>\<^verbatim>\<open>d.get(key, default)\<close>: only a dict has the method.\<close>

fun py_get :: "json \<Rightarrow> string \<Rightarrow> json \<Rightarrow> exn + json" where
  "py_get (JObj kvs) key dflt = (case map_of kvs key of Some v \<Rightarrow> Inr v | None \<Rightarrow> Inr dflt)"
| "py_get _ key dflt = Inl AttributeError"

text \<open>
  \<^verbatim>\<open>x[0]\<close>: the first element of a list or the first character of a string,
  IndexError when either is empty; a dict parsed from JSON has string keys only, so the
  key \<^verbatim>\<open>0\<close> is missing; the other values are not subscriptable.
\<close>

fun py_index0 :: "json \<Rightarrow> exn + json" where
  "py_index0 (JArr []) = Inl IndexError"
| "py_index0 (JArr (x # xs)) = Inr x"
| "py_index0 (JStr []) = Inl IndexError"
| "py_index0 (JStr (c # cs)) = Inr (JStr [c])"
| "py_index0 (JObj kvs) = Inl KeyError"
| "py_index0 _ = Inl TypeError"

text \<open>Truth value of a Python object, as \<^verbatim>\<open>if text:\<close> tests it.\<close>

fun truthy :: "json \<Rightarrow> bool" where
  "truthy JNull = False"
| "truthy (JBool b) = b"
| "truthy (JInt i) = (i \<noteq> 0)"
| "truthy (JFloat x) = (x \<noteq> 0)"
| "truthy (JStr s) = (s \<noteq> [])"
| "truthy (JArr xs) = (xs \<noteq> [])"
| "truthy (JObj kvs) = (kvs \<noteq> [])"

text \<open>Sequencing of calls that may raise.\<close>

fun and_then :: "exn + 'a \<Rightarrow> ('a \<Rightarrow> exn + 'b) \<Rightarrow> exn + 'b" where
  "and_then (Inl e) f = Inl e"
| "and_then (Inr x) f = f x"

text \<open>
  Line 74:
  \<^verbatim>\<open>data.get("choices", [{}])[0].get("message", {}).get("content", "")\<close>
\<close>

definition extract_text :: "json \<Rightarrow> exn + json" where
  "extract_text data =
     and_then (and_then (and_then (py_get data ''choices'' (JArr [JObj []])) py_index0)
       (\<lambda>choice. py_get choice ''message'' (JObj [])))
       (\<lambda>message. py_get message ''content'' (JStr ''''))"

subsection \<open>Requests, configuration and upstream calls\<close>

record Message =
  role :: string
  content :: string

record LlmRequest =
  messages :: "Message list"
  max_tokens :: int

text \<open>
  The module-level constants read from the environment at start-up. The request
  timeout only parametrises the HTTP client, whose behaviour is the upstream below.
\<close>

record config =
  OPENROUTER_API_KEY :: string
  OPENROUTER_BASE_URL :: string
  MODEL_CANDIDATES :: "string list"
  MAX_OUTPUT_TOKENS :: int

text \<open>\<^verbatim>\<open>message.model_dump()\<close>\<close>

definition model_dump :: "Message \<Rightarrow> json" where
  "model_dump m = JObj [(''role'', JStr (role m)), (''content'', JStr (content m))]"

text \<open>The dictionary \<^verbatim>\<open>payload\<close> of lines 58 to 62.\<close>

definition payload :: "config \<Rightarrow> LlmRequest \<Rightarrow> string \<Rightarrow> json" where
  "payload cfg request model =
     JObj [(''model'', JStr model),
           (''messages'', JArr (map model_dump (messages request))),
           (''max_tokens'', JInt (min (max_tokens request) (MAX_OUTPUT_TOKENS cfg)))]"

text \<open>The arguments of one \<^verbatim>\<open>client.post\<close>.\<close>

record post_call =
  post_url :: string
  post_headers :: "(string \<times> string) list"
  post_json :: json

definition headers :: "config \<Rightarrow> (string \<times> string) list" where
  "headers cfg =
     [(''Authorization'', ''Bearer '' @ OPENROUTER_API_KEY cfg),
      (''Content-Type'', ''application/json'')]"

definition post_of :: "config \<Rightarrow> LlmRequest \<Rightarrow> string \<Rightarrow> post_call" where
  "post_of cfg request model =
     \<lparr>post_url = OPENROUTER_BASE_URL cfg @ ''/chat/completions'',
      post_headers = headers cfg,
      post_json = payload cfg request model\<rparr>"

text \<open>
  What one \<^verbatim>\<open>await client.post(...)\<close> can do: raise \<^verbatim>\<open>httpx.TimeoutException\<close>,
  raise another \<^verbatim>\<open>httpx.RequestError\<close>, raise an exception that is neither (an
  invalid URL, a header that cannot be encoded), or return a response. Of a response the
  handler reads the status code and, for status 200 only, \<^verbatim>\<open>response.json()\<close>,
  which raises when the body is not JSON (\<open>None\<close>).
\<close>

datatype attempt =
    TimeoutException
  | RequestError
  | OtherException
  | Response (status_code: int) (json_of: "json option")

type_synonym 'u upstream = "'u \<Rightarrow> post_call \<Rightarrow> attempt \<times> 'u"

subsection \<open>The handler\<close>

text \<open>
  How one pass through the body of the \<^verbatim>\<open>for\<close> loop ends: \<^verbatim>\<open>continue\<close> and
  \<^verbatim>\<open>break\<close> with the value just assigned to \<^verbatim>\<open>last_error\<close>, \<^verbatim>\<open>return\<close> with
  the returned dictionary, or an exception that nothing catches (the two \<^verbatim>\<open>except\<close>
  clauses of lines 65 to 70 catch the time-out and the other request errors only).
\<close>

datatype flow = Continue string | Break string | Return json | Raise exn

definition loop_body :: "string \<Rightarrow> attempt \<Rightarrow> flow" where
  "loop_body model a =
     (case a of
        TimeoutException \<Rightarrow> Continue ''timeout''
      | RequestError \<Rightarrow> Continue ''upstream_error''
      | OtherException \<Rightarrow> Raise OtherError
      | Response code body \<Rightarrow>
          if code = 200 then
            (case body of
               None \<Rightarrow> Raise JSONDecodeError
             | Some data \<Rightarrow>
                 (case extract_text data of
                    Inl e \<Rightarrow> Raise e
                  | Inr text \<Rightarrow>
                      if truthy text
                      then Return (JObj [(''text'', text), (''model_used'', JStr model)])
                      else Break ''failed''))
          else if code = 429 then Continue ''rate_limited''
          else if 500 \<le> code \<and> code < 600 then Continue ''upstream_error''
          else Break ''failed'')"

text \<open>
  The loop over the candidates and line 91 after it. The result is what the handler
  returns or raises, together with the calls made to the upstream, in order.
\<close>

fun candidates_loop ::
  "config \<Rightarrow> LlmRequest \<Rightarrow> 'u upstream \<Rightarrow> string list \<Rightarrow> string \<Rightarrow> 'u
     \<Rightarrow> (exn + json) \<times> post_call list" where
  "candidates_loop cfg request up [] last_error u =
     (Inr (JObj [(''error_type'', JStr last_error)]), [])"
| "candidates_loop cfg request up (model # rest) last_error u =
     (case up u (post_of cfg request model) of (a, u') \<Rightarrow>
        (case loop_body model a of
           Continue e \<Rightarrow>
             apsnd (Cons (post_of cfg request model)) (candidates_loop cfg request up rest e u')
         | Break e \<Rightarrow> (Inr (JObj [(''error_type'', JStr e)]), [post_of cfg request model])
         | Return d \<Rightarrow> (Inr d, [post_of cfg request model])
         | Raise x \<Rightarrow> (Inl x, [post_of cfg request model])))"

definition generate ::
  "config \<Rightarrow> LlmRequest \<Rightarrow> 'u upstream \<Rightarrow> 'u \<Rightarrow> (exn + json) \<times> post_call list" where
  "generate cfg request up u =
     (if MODEL_CANDIDATES cfg = [] then (Inr (JObj [(''error_type'', JStr ''failed'')]), [])
      else candidates_loop cfg request up (MODEL_CANDIDATES cfg) ''failed'' u)"

section \<open>Vocabulary of the specification\<close>

subsection \<open>Transient conditions and the upstream's answers\<close>

text \<open>
  The glossary's transient conditions: timeout, transport error, status 429 and the
  statuses of the 5xx range.
\<close>

fun transient :: "attempt \<Rightarrow> bool" where
  "transient TimeoutException = True"
| "transient RequestError = True"
| "transient OtherException = False"
| "transient (Response code body) = (code = 429 \<or> (500 \<le> code \<and> code < 600))"

text \<open>
  The answers the upstream gives to a list of calls made one after the other from the
  state \<open>u\<close>. For the calls of the candidates in list order, entry \<open>i\<close> is what
  candidate \<open>i\<close> yields once the candidates before it have been tried.
\<close>

fun upstream_outcomes :: "'u upstream \<Rightarrow> 'u \<Rightarrow> post_call list \<Rightarrow> attempt list" where
  "upstream_outcomes up u [] = []"
| "upstream_outcomes up u (c # cs) =
     (case up u c of (a, u') \<Rightarrow> a # upstream_outcomes up u' cs)"

subsection \<open>The decision table, in the specification's words\<close>

datatype error_kind = Timeout | UpstreamError | RateLimited | Failed

text \<open>The tags of the taxonomy, as they are surfaced in \<^verbatim>\<open>error_type\<close>.\<close>

fun kind_tag :: "error_kind \<Rightarrow> string" where
  "kind_tag Timeout = ''timeout''"
| "kind_tag UpstreamError = ''upstream_error''"
| "kind_tag RateLimited = ''rate_limited''"
| "kind_tag Failed = ''failed''"

definition taxonomy :: "string list" where
  "taxonomy = [''failed'', ''timeout'', ''upstream_error'', ''rate_limited'']"

text \<open>
  Text extraction in the specification's words: the first entry of the choice list, then
  its message, then the content field of the message; a missing intermediate field gives
  empty content. The extracted body is a text, so a body that is not JSON and a content
  that is not a string give no text either. These definitions follow the specification,
  not line 74.
\<close>

fun spec_field :: "json \<Rightarrow> string \<Rightarrow> json option" where
  "spec_field (JObj kvs) key = map_of kvs key"
| "spec_field _ key = None"

fun spec_first :: "json option \<Rightarrow> json option" where
  "spec_first (Some (JArr (x # xs))) = Some x"
| "spec_first _ = None"

fun spec_text :: "json option \<Rightarrow> string" where
  "spec_text (Some (JStr s)) = s"
| "spec_text _ = ''''"

definition spec_extract :: "json option \<Rightarrow> string" where
  "spec_extract body =
     spec_text
       (Option.bind
          (Option.bind (spec_first (Option.bind body (\<lambda>data. spec_field data ''choices'')))
             (\<lambda>choice. spec_field choice ''message''))
          (\<lambda>message. spec_field message ''content''))"

text \<open>
  An observed condition: no response within the timeout, a transport-level failure, an
  HTTP status together with the extracted message body, or a condition the table does
  not list.
\<close>

datatype observed = NetworkTimeout | TransportFailure | HttpStatus int string | Unlisted

datatype classification =
    ClassContinue error_kind
  | StopSuccess string
  | StopFailure error_kind
  | Unclassified

text \<open>
  The seven rows of the table, first match first; the success status is 200 and a body
  is non-empty when it is a non-empty string. This definition follows the specification,
  not the code.
\<close>

fun spec_classify :: "observed \<Rightarrow> classification" where
  "spec_classify NetworkTimeout = ClassContinue Timeout"
| "spec_classify TransportFailure = ClassContinue UpstreamError"
| "spec_classify (HttpStatus code body) =
     (if code = 200 \<and> body \<noteq> [] then StopSuccess body
      else if code = 200 then StopFailure Failed
      else if code = 429 then ClassContinue RateLimited
      else if 500 \<le> code \<and> code < 600 then ClassContinue UpstreamError
      else StopFailure Failed)"
| "spec_classify Unlisted = Unclassified"

text \<open>The condition an attempt shows.\<close>

fun observe :: "attempt \<Rightarrow> observed" where
  "observe TimeoutException = NetworkTimeout"
| "observe RequestError = TransportFailure"
| "observe OtherException = Unlisted"
| "observe (Response code body) = HttpStatus code (spec_extract body)"

subsection \<open>The two shapes of a result\<close>

fun is_success :: "json \<Rightarrow> bool" where
  "is_success (JObj [(k1, t), (k2, JStr m)]) = (k1 = ''text'' \<and> k2 = ''model_used'')"
| "is_success _ = False"

fun is_failure :: "json \<Rightarrow> bool" where
  "is_failure (JObj [(k, JStr e)]) = (k = ''error_type'' \<and> e \<in> set taxonomy)"
| "is_failure _ = False"

fun is_nonempty_string :: "json \<Rightarrow> bool" where
  "is_nonempty_string (JStr s) = (s \<noteq> [])"
| "is_nonempty_string _ = False"

section \<open>Stub upstreams and sample inputs\<close>

text \<open>A stub that replays a prepared list of answers, one per call.\<close>

fun scripted :: "attempt list upstream" where
  "scripted [] c = (RequestError, [])"
| "scripted (a # as) c = (a, as)"

definition example_config :: "string list \<Rightarrow> config" where
  "example_config cands =
     \<lparr>OPENROUTER_API_KEY = ''key'', OPENROUTER_BASE_URL = ''https://openrouter.ai/api/v1'',
      MODEL_CANDIDATES = cands, MAX_OUTPUT_TOKENS = 600\<rparr>"

definition example_request :: "int \<Rightarrow> LlmRequest" where
  "example_request n = \<lparr>messages = [\<lparr>role = ''user'', content = ''hi''\<rparr>], max_tokens = n\<rparr>"

text \<open>A completion body with one choice whose message content is \<open>c\<close>.\<close>

definition completion :: "json \<Rightarrow> json" where
  "completion c = JObj [(''choices'', JArr [JObj [(''message'', JObj [(''content'', c)])]])]"

section \<open>Lemmas about the loop\<close>

lemma loop_body_transient:
  "transient a \<Longrightarrow>
     \<exists>k. spec_classify (observe a) = ClassContinue k \<and> loop_body model a = Continue (kind_tag k)"
  by (cases a) (auto simp: loop_body_def split: option.splits)

lemma loop_body_Return:
  "loop_body model a = Return d \<Longrightarrow>
     \<exists>data t. a = Response 200 (Some data) \<and> extract_text data = Inr t \<and> truthy t \<and>
       d = JObj [(''text'', t), (''model_used'', JStr model)]"
  by (cases a) (auto simp: loop_body_def split: option.splits sum.splits if_splits)

lemma loop_body_Continue: "loop_body model a = Continue e \<Longrightarrow> e \<in> set taxonomy"
  by (cases a) (auto simp: loop_body_def taxonomy_def split: option.splits sum.splits if_splits)

lemma loop_body_Break: "loop_body model a = Break e \<Longrightarrow> e = ''failed''"
  by (cases a) (auto simp: loop_body_def split: option.splits sum.splits if_splits)

lemma loop_first_success:
  assumes "k < length cands"
    and "\<forall>i<k. transient (upstream_outcomes up u (map (post_of cfg request) cands) ! i)"
    and "upstream_outcomes up u (map (post_of cfg request) cands) ! k = Response 200 (Some data)"
    and "extract_text data = Inr (JStr text)" and "text \<noteq> []"
  shows "candidates_loop cfg request up cands last_error u =
     (Inr (JObj [(''text'', JStr text), (''model_used'', JStr (cands ! k))]),
      map (post_of cfg request) (take (Suc k) cands))"
  using assms(1-3)
proof (induction cands arbitrary: k u last_error)
  case Nil
  then show ?case by simp
next
  case (Cons model rest)
  obtain a u' where step: "up u (post_of cfg request model) = (a, u')"
    by (cases "up u (post_of cfg request model)")
  show ?case
  proof (cases k)
    case 0
    with Cons.prems step have "a = Response 200 (Some data)" by simp
    with step assms(4,5) 0 show ?thesis by (simp add: loop_body_def)
  next
    case (Suc j)
    with Cons.prems(2) step have "transient a" by force
    then obtain e where e: "loop_body model a = Continue e"
      using loop_body_transient by blast
    have "j < length rest" using Cons.prems(1) Suc by simp
    moreover have "\<forall>i<j. transient (upstream_outcomes up u' (map (post_of cfg request) rest) ! i)"
    proof (intro allI impI)
      fix i assume "i < j"
      then have "Suc i < k" using Suc by simp
      with Cons.prems(2) step show "transient (upstream_outcomes up u' (map (post_of cfg request) rest) ! i)"
        by force
    qed
    moreover have "upstream_outcomes up u' (map (post_of cfg request) rest) ! j = Response 200 (Some data)"
      using Cons.prems(3) step Suc by simp
    ultimately have "candidates_loop cfg request up rest e u' =
       (Inr (JObj [(''text'', JStr text), (''model_used'', JStr (rest ! j))]),
        map (post_of cfg request) (take (Suc j) rest))"
      by (rule Cons.IH)
    with step e Suc show ?thesis by simp
  qed
qed

lemma loop_all_transient:
  assumes "cands \<noteq> []"
    and "\<forall>a \<in> set (upstream_outcomes up u (map (post_of cfg request) cands)). transient a"
  shows "\<exists>k. spec_classify (observe (last (upstream_outcomes up u (map (post_of cfg request) cands))))
               = ClassContinue k \<and>
             candidates_loop cfg request up cands last_error u =
               (Inr (JObj [(''error_type'', JStr (kind_tag k))]), map (post_of cfg request) cands)"
  using assms
proof (induction cands arbitrary: u last_error)
  case Nil
  then show ?case by simp
next
  case (Cons model rest)
  obtain a u' where step: "up u (post_of cfg request model) = (a, u')"
    by (cases "up u (post_of cfg request model)")
  with Cons.prems(2) have "transient a" by simp
  then obtain k where k: "spec_classify (observe a) = ClassContinue k"
      "loop_body model a = Continue (kind_tag k)"
    using loop_body_transient by blast
  show ?case
  proof (cases "rest = []")
    case True
    with step k show ?thesis by simp
  next
    case False
    have "\<forall>a \<in> set (upstream_outcomes up u' (map (post_of cfg request) rest)). transient a"
      using Cons.prems(2) step by simp
    with False obtain k' where
      "spec_classify (observe (last (upstream_outcomes up u' (map (post_of cfg request) rest))))
         = ClassContinue k'"
      "candidates_loop cfg request up rest (kind_tag k) u' =
         (Inr (JObj [(''error_type'', JStr (kind_tag k'))]), map (post_of cfg request) rest)"
      using Cons.IH by blast
    moreover have "upstream_outcomes up u' (map (post_of cfg request) rest) \<noteq> []"
      using False by (cases rest) (auto split: prod.splits)
    ultimately show ?thesis using step k by simp
  qed
qed

lemma loop_calls_subset:
  "c \<in> set (snd (candidates_loop cfg request up cands last_error u)) \<Longrightarrow>
     c \<in> post_of cfg request ` set cands"
proof (induction cands arbitrary: u last_error)
  case Nil
  then show ?case by simp
next
  case (Cons model rest)
  obtain a u' where step: "up u (post_of cfg request model) = (a, u')"
    by (cases "up u (post_of cfg request model)")
  show ?case
  proof (cases "loop_body model a")
    case (Continue e)
    with Cons.prems step have "c = post_of cfg request model \<or>
        c \<in> set (snd (candidates_loop cfg request up rest e u'))"
      by auto
    with Cons.IH show ?thesis by auto
  qed (use Cons.prems step in auto)
qed

lemma loop_calls_nonempty:
  "cands \<noteq> [] \<Longrightarrow> snd (candidates_loop cfg request up cands last_error u) \<noteq> []"
  by (cases cands) (auto split: prod.splits flow.splits)

lemma payload_max_tokens:
  "py_get (post_json (post_of cfg request model)) ''max_tokens'' JNull =
     Inr (JInt (min (max_tokens request) (MAX_OUTPUT_TOKENS cfg)))"
  by (simp add: post_of_def payload_def)

lemma loop_success_origin:
  assumes "candidates_loop cfg request up cands last_error u = (Inr (JObj kvs), calls)"
    and "map_of kvs ''text'' = Some t"
  shows "truthy t \<and> (\<exists>k<length cands.
           kvs = [(''text'', t), (''model_used'', JStr (cands ! k))] \<and>
           calls = map (post_of cfg request) (take (Suc k) cands) \<and>
           (\<exists>data. upstream_outcomes up u (map (post_of cfg request) cands) ! k
                      = Response 200 (Some data) \<and> extract_text data = Inr t))"
  using assms
proof (induction cands arbitrary: u last_error calls)
  case Nil
  then show ?case by auto
next
  case (Cons model rest)
  obtain a u' where step: "up u (post_of cfg request model) = (a, u')"
    by (cases "up u (post_of cfg request model)")
  show ?case
  proof (cases "loop_body model a")
    case (Continue e)
    obtain r cs where rec: "candidates_loop cfg request up rest e u' = (r, cs)"
      by (cases "candidates_loop cfg request up rest e u'")
    with Cons.prems(1) step Continue have r: "r = Inr (JObj kvs)"
      and calls: "calls = post_of cfg request model # cs" by auto
    from Cons.IH [OF rec [unfolded r] Cons.prems(2)]
    obtain k data where "truthy t" "k < length rest"
      "kvs = [(''text'', t), (''model_used'', JStr (rest ! k))]"
      "cs = map (post_of cfg request) (take (Suc k) rest)"
      "upstream_outcomes up u' (map (post_of cfg request) rest) ! k = Response 200 (Some data)"
      "extract_text data = Inr t"
      by blast
    with step calls show ?thesis
      by (intro conjI exI [of _ "Suc k"] exI [of _ data]) simp_all
  next
    case (Break e)
    with Cons.prems step show ?thesis by auto
  next
    case (Return d)
    from loop_body_Return [OF Return] obtain data t' where
      "a = Response 200 (Some data)" "extract_text data = Inr t'" "truthy t'"
      "d = JObj [(''text'', t'), (''model_used'', JStr model)]" by blast
    with Cons.prems step Return show ?thesis
      by (intro conjI exI [of _ "0::nat"] exI [of _ data]) auto
  next
    case (Raise x)
    with Cons.prems step show ?thesis by auto
  qed
qed

lemma loop_result_shape:
  assumes "last_error \<in> set taxonomy"
    and "fst (candidates_loop cfg request up cands last_error u) = Inr r"
  shows "(is_success r \<and> \<not> is_failure r) \<or> (is_failure r \<and> \<not> is_success r)"
  using assms
proof (induction cands arbitrary: u last_error)
  case Nil
  then show ?case by auto
next
  case (Cons model rest)
  obtain a u' where step: "up u (post_of cfg request model) = (a, u')"
    by (cases "up u (post_of cfg request model)")
  show ?case
  proof (cases "loop_body model a")
    case (Continue e)
    then have "e \<in> set taxonomy" by (rule loop_body_Continue)
    moreover have "fst (candidates_loop cfg request up rest e u') = Inr r"
      using Cons.prems(2) step Continue by simp
    ultimately show ?thesis by (rule Cons.IH)
  next
    case (Break e)
    then have "e = ''failed''" by (rule loop_body_Break)
    with Cons.prems(2) step Break show ?thesis by (auto simp: taxonomy_def)
  next
    case (Return d)
    from loop_body_Return [OF Return] Cons.prems(2) step Return show ?thesis by auto
  next
    case (Raise x)
    with Cons.prems(2) step show ?thesis by simp
  qed
qed

lemma py_get_obj:
  "py_get d key dflt = Inr v \<Longrightarrow>
     \<exists>kvs. d = JObj kvs \<and> v = (case map_of kvs key of Some w \<Rightarrow> w | None \<Rightarrow> dflt)"
  by (cases d) (auto split: option.splits)

text \<open>
  Where line 74 yields a string, it is the text the specification extracts.
\<close>

lemma extract_text_string_agrees:
  assumes "extract_text data = Inr (JStr s)"
  shows "spec_extract (Some data) = s"
proof -
  from assms obtain v where v: "py_get data ''choices'' (JArr [JObj []]) = Inr v"
    by (cases "py_get data ''choices'' (JArr [JObj []])") (auto simp: extract_text_def)
  then obtain kvs where d: "data = JObj kvs"
    and vv: "v = (case map_of kvs ''choices'' of Some w \<Rightarrow> w | None \<Rightarrow> JArr [JObj []])"
    using py_get_obj by blast
  from assms v obtain c where c: "py_index0 v = Inr c"
    by (cases "py_index0 v") (auto simp: extract_text_def)
  from assms v c obtain m where m: "py_get c ''message'' (JObj []) = Inr m"
    by (cases "py_get c ''message'' (JObj [])") (auto simp: extract_text_def)
  then obtain ckvs where cd: "c = JObj ckvs"
    and mm: "m = (case map_of ckvs ''message'' of Some w \<Rightarrow> w | None \<Rightarrow> JObj [])"
    using py_get_obj by blast
  from assms v c m have t: "py_get m ''content'' (JStr '''') = Inr (JStr s)"
    by (simp add: extract_text_def)
  then obtain mkvs where md: "m = JObj mkvs"
    and ss: "JStr s = (case map_of mkvs ''content'' of Some w \<Rightarrow> w | None \<Rightarrow> JStr '''')"
    using py_get_obj by blast
  from c cd obtain rest where varr: "v = JArr (JObj ckvs # rest)"
    by (cases v rule: py_index0.cases) auto
  show ?thesis
    using d vv varr mm md ss
    by (auto simp: spec_extract_def split: option.splits)
qed

text \<open>
  One pass of the loop follows the decision table on every attempt that is a time-out,
  a request error, or a response whose status is not 200 or whose status-200 body yields
  a string at line 74.
\<close>

lemma loop_body_follows_table:
  assumes "a \<noteq> OtherException"
    and "\<forall>body. a = Response 200 body \<longrightarrow>
           (\<exists>data s. body = Some data \<and> extract_text data = Inr (JStr s))"
  shows "loop_body model a =
     (case spec_classify (observe a) of
        ClassContinue k \<Rightarrow> Continue (kind_tag k)
      | StopSuccess s \<Rightarrow> Return (JObj [(''text'', JStr s), (''model_used'', JStr model)])
      | StopFailure k \<Rightarrow> Break (kind_tag k)
      | Unclassified \<Rightarrow> Raise OtherError)"
proof (cases a)
  case (Response code body)
  show ?thesis
  proof (cases "code = 200")
    case True
    with Response assms(2) obtain data s where b: "body = Some data"
      and e: "extract_text data = Inr (JStr s)" by blast
    from e have "spec_extract (Some data) = s" by (rule extract_text_string_agrees)
    with Response True b e show ?thesis by (simp add: loop_body_def)
  next
    case False
    with Response show ?thesis by (simp add: loop_body_def)
  qed
next
  case TimeoutException
  then show ?thesis by (simp add: loop_body_def)
next
  case RequestError
  then show ?thesis by (simp add: loop_body_def)
next
  case OtherException
  with assms(1) show ?thesis by simp
qed

text \<open>
  Where a returned success comes from: its text is a value Python counts as true, it
  names a candidate \<open>k\<close>, the calls made are those of the candidates up to \<open>k\<close>, and
  the text is what line 74 extracts from the status-200 answer to candidate \<open>k\<close>.
\<close>

lemma generate_success_origin:
  assumes "generate cfg request up u = (Inr (JObj kvs), calls)"
    and "map_of kvs ''text'' = Some t"
  shows "truthy t \<and>
     (\<exists>k<length (MODEL_CANDIDATES cfg).
        kvs = [(''text'', t), (''model_used'', JStr (MODEL_CANDIDATES cfg ! k))] \<and>
        calls = map (post_of cfg request) (take (Suc k) (MODEL_CANDIDATES cfg)) \<and>
        (\<exists>data. upstream_outcomes up u (map (post_of cfg request) (MODEL_CANDIDATES cfg)) ! k
                   = Response 200 (Some data) \<and> extract_text data = Inr t))"
proof -
  have "MODEL_CANDIDATES cfg \<noteq> []"
  proof
    assume "MODEL_CANDIDATES cfg = []"
    with assms(1) have "kvs = [(''error_type'', JStr ''failed'')]"
      by (simp add: generate_def)
    with assms(2) show False by simp
  qed
  with assms(1) have "candidates_loop cfg request up (MODEL_CANDIDATES cfg) ''failed'' u
                        = (Inr (JObj kvs), calls)"
    by (simp add: generate_def)
  from loop_success_origin [OF this assms(2)] show ?thesis .
qed

text \<open>A dictionary that \<open>generate\<close> returns has exactly one of the two shapes.\<close>

lemma generate_returned_shape:
  assumes "fst (generate cfg request up u) = Inr r"
  shows "(is_success r \<and> \<not> is_failure r) \<or> (is_failure r \<and> \<not> is_success r)"
proof (cases "MODEL_CANDIDATES cfg = []")
  case True
  with assms show ?thesis by (auto simp: generate_def taxonomy_def)
next
  case False
  with assms have "fst (candidates_loop cfg request up (MODEL_CANDIDATES cfg) ''failed'' u) = Inr r"
    by (simp add: generate_def)
  moreover have "''failed'' \<in> set taxonomy" by (simp add: taxonomy_def)
  ultimately show ?thesis by (rule loop_result_shape [rotated])
qed

section \<open>Properties\<close>

subsection \<open>Fallback to the first success\<close>

text \<open>
  C1. If candidate \<open>k\<close> answers with status 200 and a non-empty extracted text, and
  every candidate before it yields a transient condition, then \<open>generate\<close> returns
  the success with that text and \<^verbatim>\<open>model_used\<close> equal to candidate \<open>k\<close>, and the
  calls made are exactly those of the candidates up to \<open>k\<close>: none after it is called.
  (Positions are counted from 0 here.)
\<close>

theorem generate_first_success:
  assumes "k < length (MODEL_CANDIDATES cfg)"
    and "\<forall>i<k. transient
           (upstream_outcomes up u (map (post_of cfg request) (MODEL_CANDIDATES cfg)) ! i)"
    and "upstream_outcomes up u (map (post_of cfg request) (MODEL_CANDIDATES cfg)) ! k
           = Response 200 (Some data)"
    and "extract_text data = Inr (JStr text)" and "text \<noteq> []"
  shows "generate cfg request up u =
     (Inr (JObj [(''text'', JStr text), (''model_used'', JStr (MODEL_CANDIDATES cfg ! k))]),
      map (post_of cfg request) (take (Suc k) (MODEL_CANDIDATES cfg)))"
proof -
  have "MODEL_CANDIDATES cfg \<noteq> []" using assms(1) by auto
  then show ?thesis
    using loop_first_success [OF assms] by (simp add: generate_def)
qed

theorem generate_first_success_witness:
  "generate (example_config [''m1'', ''m2'', ''m3'']) (example_request 100) scripted
     [Response 429 None, Response 200 (Some (completion (JStr ''hello''))), TimeoutException]
   = (Inr (JObj [(''text'', JStr ''hello''), (''model_used'', JStr ''m2'')]),
      [post_of (example_config [''m1'', ''m2'', ''m3'']) (example_request 100) ''m1'',
       post_of (example_config [''m1'', ''m2'', ''m3'']) (example_request 100) ''m2''])"
proof -
  let ?cfg = "example_config [''m1'', ''m2'', ''m3'']"
  let ?script = "[Response 429 None, Response 200 (Some (completion (JStr ''hello''))),
                  TimeoutException]"
  have outs: "upstream_outcomes scripted ?script
                (map (post_of ?cfg (example_request 100)) (MODEL_CANDIDATES ?cfg)) = ?script"
    by (simp add: example_config_def)
  have h1: "1 < length (MODEL_CANDIDATES ?cfg)" by (simp add: example_config_def)
  have h2: "\<forall>i<1. transient (upstream_outcomes scripted ?script
                (map (post_of ?cfg (example_request 100)) (MODEL_CANDIDATES ?cfg)) ! i)"
    unfolding outs by simp
  have h3: "upstream_outcomes scripted ?script
                (map (post_of ?cfg (example_request 100)) (MODEL_CANDIDATES ?cfg)) ! 1
              = Response 200 (Some (completion (JStr ''hello'')))"
    unfolding outs by simp
  have h4: "extract_text (completion (JStr ''hello'')) = Inr (JStr ''hello'')"
    by (simp add: extract_text_def completion_def)
  have h5: "''hello'' \<noteq> []" by simp
  from generate_first_success [OF h1 h2 h3 h4 h5] show ?thesis
    by (simp add: example_config_def)
qed

subsection \<open>Exhausting the candidates\<close>

text \<open>
  C2. For a non-empty candidate list on which every candidate yields a transient
  condition, \<open>generate\<close> returns the failure whose kind is the one the decision table
  records for the last candidate's outcome, and the calls made are those of all the
  candidates, one each, in list order.
\<close>

theorem generate_all_transient:
  assumes "MODEL_CANDIDATES cfg \<noteq> []"
    and "\<forall>a \<in> set (upstream_outcomes up u
                      (map (post_of cfg request) (MODEL_CANDIDATES cfg))). transient a"
  shows "\<exists>k. spec_classify (observe (last (upstream_outcomes up u
                   (map (post_of cfg request) (MODEL_CANDIDATES cfg))))) = ClassContinue k \<and>
             generate cfg request up u =
               (Inr (JObj [(''error_type'', JStr (kind_tag k))]),
                map (post_of cfg request) (MODEL_CANDIDATES cfg))"
  using loop_all_transient [OF assms] assms(1) by (simp add: generate_def)

theorem generate_all_transient_witness:
  "generate (example_config [''m1'', ''m2'', ''m3'']) (example_request 100) scripted
     [TimeoutException, Response 503 None, Response 429 None]
   = (Inr (JObj [(''error_type'', JStr ''rate_limited'')]),
      map (post_of (example_config [''m1'', ''m2'', ''m3'']) (example_request 100))
        [''m1'', ''m2'', ''m3''])"
proof -
  let ?cfg = "example_config [''m1'', ''m2'', ''m3'']"
  let ?script = "[TimeoutException, Response 503 None, Response 429 None]"
  have outs: "upstream_outcomes scripted ?script
                (map (post_of ?cfg (example_request 100)) (MODEL_CANDIDATES ?cfg)) = ?script"
    by (simp add: example_config_def)
  have h1: "MODEL_CANDIDATES ?cfg \<noteq> []" by (simp add: example_config_def)
  have h2: "\<forall>a \<in> set (upstream_outcomes scripted ?script
                (map (post_of ?cfg (example_request 100)) (MODEL_CANDIDATES ?cfg))). transient a"
    unfolding outs by simp
  from generate_all_transient [OF h1 h2] obtain k where
    k: "spec_classify (observe (last ?script)) = ClassContinue k"
    and g: "generate ?cfg (example_request 100) scripted ?script =
              (Inr (JObj [(''error_type'', JStr (kind_tag k))]),
               map (post_of ?cfg (example_request 100)) (MODEL_CANDIDATES ?cfg))"
    unfolding outs by blast
  from k have "k = RateLimited" by simp
  with g show ?thesis by (simp add: example_config_def)
qed

subsection \<open>The decision table\<close>

text \<open>
  C3. Every attempt outcome is to be classified by the decision table, and a status 200
  whose extracted body is empty or absent is to stop the loop with the failure of kind
  \<^verbatim>\<open>failed\<close> after that one call. For the answer \<^verbatim>\<open>{"choices": []}\<close> with status
  200 the table says StopFailure with \<^verbatim>\<open>failed\<close> (there is no first choice, so the body
  is absent), and the loop does stop after that one call, but by raising IndexError at
  line 74, not by returning the failure.
\<close>

theorem candidates_loop_empty_choices_departs_from_table:
  "spec_classify (observe (Response 200 (Some (JObj [(''choices'', JArr [])]))))
     = StopFailure Failed
   \<and> candidates_loop (example_config [''m1'', ''m2'']) (example_request 100) scripted
       [''m1'', ''m2''] ''failed'' [Response 200 (Some (JObj [(''choices'', JArr [])]))]
     = (Inl IndexError, [post_of (example_config [''m1'', ''m2'']) (example_request 100) ''m1''])"
  by (simp add: spec_extract_def loop_body_def extract_text_def)

subsection \<open>The empty candidate list\<close>

text \<open>
  C4. With no candidate configured, the specification asks for a failure of the
  dedicated kind \<^verbatim>\<open>no_candidates\<close>. The handler has no such kind: line 48 returns
  \<^verbatim>\<open>{"error_type": "failed"}\<close>. Stated as specified, the property fails on the
  empty list.
\<close>

theorem generate_empty_no_candidates_counterexample:
  "fst (generate (example_config []) (example_request 100) scripted [])
     \<noteq> Inr (JObj [(''error_type'', JStr ''no_candidates'')])"
  by (simp add: generate_def example_config_def)

text \<open>
  C4, as the code has it. With no candidate configured, \<open>generate\<close> returns the
  failure of kind \<^verbatim>\<open>failed\<close> and makes no upstream call.
\<close>

theorem generate_empty_failed:
  "MODEL_CANDIDATES cfg = [] \<Longrightarrow>
     generate cfg request up u = (Inr (JObj [(''error_type'', JStr ''failed'')]), [])"
  by (simp add: generate_def)

theorem generate_empty_failed_witness:
  "MODEL_CANDIDATES (example_config []) = []
   \<and> generate (example_config []) (example_request 100) scripted []
       = (Inr (JObj [(''error_type'', JStr ''failed'')]), [])"
proof -
  have h: "MODEL_CANDIDATES (example_config []) = []" by (simp add: example_config_def)
  from generate_empty_failed [OF h, of "example_request 100" scripted "[]"] h
  show ?thesis by simp
qed

subsection \<open>Text extraction\<close>

text \<open>
  C5. The specification asks that every missing intermediate field of a 200 response,
  an empty \<^verbatim>\<open>choices\<close> list included, count as empty content, and that no
  exception leave the handler. On the body \<^verbatim>\<open>{"choices": []}\<close> line 74 evaluates
  \<^verbatim>\<open>[][0]\<close>: the handler raises IndexError after its first call instead of returning
  the failure of kind \<^verbatim>\<open>failed\<close>.
\<close>

theorem generate_empty_choices_raises:
  "generate (example_config [''m1'', ''m2'']) (example_request 100) scripted
     [Response 200 (Some (JObj [(''choices'', JArr [])]))]
   = (Inl IndexError, [post_of (example_config [''m1'', ''m2'']) (example_request 100) ''m1''])"
  by (simp add: generate_def example_config_def loop_body_def extract_text_def)

subsection \<open>What a success carries\<close>

text \<open>
  C6. The text of every success is to be a non-empty string, and the module's own
  \<^verbatim>\<open>LlmResponse\<close> declares \<^verbatim>\<open>text: str\<close>. The handler tests the extracted content
  with \<^verbatim>\<open>if text:\<close> only and returns it as it is: for a status-200 answer whose content
  is a non-empty list of parts, the success it returns carries that list as its text,
  which is no string.
\<close>

theorem generate_success_text_not_string:
  "fst (generate (example_config [''m1'']) (example_request 100) scripted
          [Response 200 (Some (completion
             (JArr [JObj [(''type'', JStr ''text''), (''text'', JStr ''hi'')]])))])
     = Inr (JObj [(''text'', JArr [JObj [(''type'', JStr ''text''), (''text'', JStr ''hi'')]]),
                  (''model_used'', JStr ''m1'')])
   \<and> \<not> is_nonempty_string (JArr [JObj [(''type'', JStr ''text''), (''text'', JStr ''hi'')]])"
  by (simp add: generate_def example_config_def loop_body_def extract_text_def completion_def)

subsection \<open>The token ceiling\<close>

text \<open>
  C7. In every call \<open>generate\<close> makes, whichever candidate it is for, the
  \<^verbatim>\<open>max_tokens\<close> entry of the payload is the minimum of the requested value and
  \<^verbatim>\<open>MAX_OUTPUT_TOKENS\<close>.
\<close>

theorem generate_max_tokens_clamped:
  "\<forall>c \<in> set (snd (generate cfg request up u)).
     py_get (post_json c) ''max_tokens'' JNull
       = Inr (JInt (min (max_tokens request) (MAX_OUTPUT_TOKENS cfg)))"
proof
  fix c assume c: "c \<in> set (snd (generate cfg request up u))"
  then have "MODEL_CANDIDATES cfg \<noteq> []" by (auto simp: generate_def)
  with c have "c \<in> set (snd (candidates_loop cfg request up (MODEL_CANDIDATES cfg) ''failed'' u))"
    by (simp add: generate_def)
  then have "c \<in> post_of cfg request ` set (MODEL_CANDIDATES cfg)"
    by (rule loop_calls_subset)
  then show "py_get (post_json c) ''max_tokens'' JNull
               = Inr (JInt (min (max_tokens request) (MAX_OUTPUT_TOKENS cfg)))"
    using payload_max_tokens by auto
qed

theorem generate_max_tokens_clamped_witness:
  "post_of (example_config [''m1'', ''m2'']) (example_request 1000) ''m2''
     \<in> set (snd (generate (example_config [''m1'', ''m2'']) (example_request 1000) scripted
                   [TimeoutException, Response 400 None]))
   \<and> py_get (post_json (post_of (example_config [''m1'', ''m2'']) (example_request 1000) ''m2''))
       ''max_tokens'' JNull = Inr (JInt 600)"
proof -
  have h: "post_of (example_config [''m1'', ''m2'']) (example_request 1000) ''m2''
     \<in> set (snd (generate (example_config [''m1'', ''m2'']) (example_request 1000) scripted
                   [TimeoutException, Response 400 None]))"
    by (simp add: generate_def example_config_def loop_body_def)
  from bspec [OF generate_max_tokens_clamped h] h show ?thesis
    by (simp add: example_config_def example_request_def)
qed

subsection \<open>The shape of every result\<close>

text \<open>
  C8. For every input and every sequence of attempt outcomes the result of
  \<open>generate\<close> is to be one of the two dictionaries. When the first candidate is
  answered with status 503 and the second with status 200 and the body
  \<^verbatim>\<open>{"choices": []}\<close>, \<open>generate\<close> returns neither: after the two calls it raises
  IndexError at line 74.
\<close>

theorem generate_raises_instead_of_result:
  "generate (example_config [''m1'', ''m2'']) (example_request 100) scripted
     [Response 503 None, Response 200 (Some (JObj [(''choices'', JArr [])]))]
   = (Inl IndexError,
      [post_of (example_config [''m1'', ''m2'']) (example_request 100) ''m1'',
       post_of (example_config [''m1'', ''m2'']) (example_request 100) ''m2''])"
  by (simp add: generate_def example_config_def loop_body_def extract_text_def)

subsection \<open>Requests for no tokens\<close>

text \<open>
  C10. The handler does not check that the requested \<^verbatim>\<open>max_tokens\<close> is positive.
  With a positive ceiling and at least one candidate, a request whose \<^verbatim>\<open>max_tokens\<close>
  is zero or negative is not rejected: upstream calls are made, and every one of them
  carries the requested value itself as \<^verbatim>\<open>max_tokens\<close>.
\<close>

theorem generate_nonpositive_max_tokens:
  assumes "max_tokens request \<le> 0" and "0 < MAX_OUTPUT_TOKENS cfg"
    and "MODEL_CANDIDATES cfg \<noteq> []"
  shows "snd (generate cfg request up u) \<noteq> [] \<and>
     (\<forall>c \<in> set (snd (generate cfg request up u)).
        py_get (post_json c) ''max_tokens'' JNull = Inr (JInt (max_tokens request)))"
proof
  show "snd (generate cfg request up u) \<noteq> []"
    using assms(3) loop_calls_nonempty by (simp add: generate_def)
next
  have m: "min (max_tokens request) (MAX_OUTPUT_TOKENS cfg) = max_tokens request"
    using assms(1,2) by simp
  show "\<forall>c \<in> set (snd (generate cfg request up u)).
          py_get (post_json c) ''max_tokens'' JNull = Inr (JInt (max_tokens request))"
  proof
    fix c assume "c \<in> set (snd (generate cfg request up u))"
    with assms(3) have "c \<in> post_of cfg request ` set (MODEL_CANDIDATES cfg)"
      using loop_calls_subset by (fastforce simp: generate_def)
    then show "py_get (post_json c) ''max_tokens'' JNull = Inr (JInt (max_tokens request))"
      using payload_max_tokens m by auto
  qed
qed

theorem generate_nonpositive_max_tokens_witness:
  "max_tokens (example_request (- 5)) \<le> 0
   \<and> 0 < MAX_OUTPUT_TOKENS (example_config [''m1''])
   \<and> snd (generate (example_config [''m1'']) (example_request (- 5)) scripted
            [Response 200 (Some (completion (JStr ''ok'')))])
       = [post_of (example_config [''m1'']) (example_request (- 5)) ''m1'']
   \<and> py_get (post_json (post_of (example_config [''m1'']) (example_request (- 5)) ''m1''))
       ''max_tokens'' JNull = Inr (JInt (- 5))"
proof -
  let ?g = "generate (example_config [''m1'']) (example_request (- 5)) scripted
              [Response 200 (Some (completion (JStr ''ok'')))]"
  have h1: "max_tokens (example_request (- 5)) \<le> 0" by (simp add: example_request_def)
  have h2: "0 < MAX_OUTPUT_TOKENS (example_config [''m1''])" by (simp add: example_config_def)
  have h3: "MODEL_CANDIDATES (example_config [''m1'']) \<noteq> []" by (simp add: example_config_def)
  have calls: "snd ?g = [post_of (example_config [''m1'']) (example_request (- 5)) ''m1'']"
    by (simp add: generate_def example_config_def loop_body_def extract_text_def completion_def)
  from generate_nonpositive_max_tokens [OF h1 h2 h3, of scripted
         "[Response 200 (Some (completion (JStr ''ok'')))]"]
  have "\<forall>c \<in> set (snd ?g). py_get (post_json c) ''max_tokens'' JNull
          = Inr (JInt (max_tokens (example_request (- 5))))"
    by blast
  with calls have "py_get (post_json (post_of (example_config [''m1'']) (example_request (- 5)) ''m1''))
       ''max_tokens'' JNull = Inr (JInt (max_tokens (example_request (- 5))))"
    by simp
  then have "py_get (post_json (post_of (example_config [''m1'']) (example_request (- 5)) ''m1''))
       ''max_tokens'' JNull = Inr (JInt (- 5))"
    by (simp add: example_request_def)
  with h1 h2 calls show ?thesis by blast
qed

end
